theory Spec2Isabelle
  imports Complex_Main
begin

section \<open>Python values and the built-ins that metadata\_checker.py relies on\<close>

text \<open>
  The metadata dictionary is what \<open>json.loads\<close> returns for one ExifTool record: string keys
  mapped to JSON values. Values are modelled as \<open>None\<close>, strings, integers and lists of
  strings. Strings are byte strings with ASCII case folding; JSON floats are left out of the
  value type. A dictionary is an association list in insertion order whose keys are pairwise
  distinct; \<open>k in d\<close> and \<open>d[k]\<close> are read through \<open>map_of\<close>, \<open>len(d)\<close> is the length.
\<close>

datatype pyerror = TypeError | ValueError | AttributeError | KeyError | ZeroDivisionError

datatype pyval = PNone | PStr string | PInt int | PList "string list"

type_synonym metadata = "(string \<times> pyval) list"

type_synonym checkresult = "(string \<times> bool) list"

definition has_key :: "('k \<times> 'v) list \<Rightarrow> 'k \<Rightarrow> bool" where
  "has_key d k = (map_of d k \<noteq> None)"

subsection \<open>Strings: \<open>lower\<close>, \<open>in\<close>, \<open>split\<close>\<close>

definition lower_char :: "char \<Rightarrow> char" where
  "lower_char c =
     (case map_of (zip ''ABCDEFGHIJKLMNOPQRSTUVWXYZ'' ''abcdefghijklmnopqrstuvwxyz'') c of
        Some d \<Rightarrow> d
      | None \<Rightarrow> c)"

definition lower :: "string \<Rightarrow> string" where
  "lower s = map lower_char s"

fun starts_with :: "string \<Rightarrow> string \<Rightarrow> bool" where
  "starts_with s [] = True"
| "starts_with [] (p # ps) = False"
| "starts_with (c # cs) (p # ps) = (c = p \<and> starts_with cs ps)"

text \<open>\<open>str_in sub s\<close> is Python's \<open>sub in s\<close> on two strings.\<close>

fun str_in :: "string \<Rightarrow> string \<Rightarrow> bool" where
  "str_in sub [] = (sub = [])"
| "str_in sub (c # cs) = (starts_with (c # cs) sub \<or> str_in sub cs)"

text \<open>\<open>split_head sep s\<close> is \<open>s.split(sep)[0]\<close> for a non-empty separator: the part of
  \<open>s\<close> before the first occurrence of \<open>sep\<close>, all of \<open>s\<close> when there is none.\<close>

fun split_head :: "string \<Rightarrow> string \<Rightarrow> string" where
  "split_head sep [] = []"
| "split_head sep (c # cs) = (if starts_with (c # cs) sep then [] else c # split_head sep cs)"

subsection \<open>\<open>int(s)\<close> and \<open>float(s)\<close> on strings\<close>

text \<open>The white space that \<open>int\<close> and \<open>float\<close> skip around ASCII text: space, tab, line
  feed, vertical tab, form feed and carriage return. The separators \<open>0x1C\<close> to \<open>0x1F\<close> are
  not among them.\<close>

definition is_space :: "char \<Rightarrow> bool" where
  "is_space c = (c \<in> set [CHR '' '', CHR 0x09, CHR 0x0A, CHR 0x0B, CHR 0x0C, CHR 0x0D])"

definition strip :: "string \<Rightarrow> string" where
  "strip s = rev (dropWhile is_space (rev (dropWhile is_space s)))"

definition digit_val :: "char \<Rightarrow> nat option" where
  "digit_val c = map_of (zip ''0123456789'' [0, 1, 2, 3, 4, 5, 6, 7, 8, 9]) c"

text \<open>A digit part: decimal digits, single underscores allowed between two digits. The
  flag says whether the previous character was a digit.\<close>

fun digit_part :: "bool \<Rightarrow> nat \<Rightarrow> string \<Rightarrow> nat option" where
  "digit_part prev acc [] = (if prev then Some acc else None)"
| "digit_part prev acc (c # cs) =
     (case digit_val c of
        Some d \<Rightarrow> digit_part True (acc * 10 + d) cs
      | None \<Rightarrow> if c = CHR ''_'' \<and> prev \<and> cs \<noteq> [] then digit_part False acc cs else None)"

text \<open>Splits an optional leading sign off; the flag is true for a minus.\<close>

fun take_sign :: "string \<Rightarrow> bool \<times> string" where
  "take_sign [] = (False, [])"
| "take_sign (c # cs) =
     (if c = CHR ''-'' then (True, cs) else if c = CHR ''+'' then (False, cs) else (False, c # cs))"

text \<open>\<open>py_int s\<close> is \<open>int(s)\<close> in base 10 on ASCII text: surrounding white space, an
  optional sign, then a digit part; \<open>None\<close> stands for the ValueError.\<close>

definition py_int :: "string \<Rightarrow> int option" where
  "py_int s =
     (case take_sign (strip s) of
        (neg, ds) \<Rightarrow>
          (case digit_part False 0 ds of
             None \<Rightarrow> None
           | Some n \<Rightarrow> Some (if neg then - int n else int n)))"

text \<open>
  \<open>float(s)\<close>: the value is kept as the exact rational the literal denotes, so rounding to
  a double is not part of the model; infinities and NaN are values of their own.
\<close>

datatype pyfloat = Fin rat | PosInf | NegInf | NaN

definition is_exp_char :: "char \<Rightarrow> bool" where
  "is_exp_char c = (c = CHR ''e'' \<or> c = CHR ''E'')"

text \<open>The mantissa \<open>digits [. [digits]]\<close> or \<open>. digits\<close>, as a rational.\<close>

definition mantissa :: "string \<Rightarrow> rat option" where
  "mantissa s =
     (let ip = takeWhile (\<lambda>c. c \<noteq> CHR ''.'') s; rest = dropWhile (\<lambda>c. c \<noteq> CHR ''.'') s in
      case rest of
        [] \<Rightarrow> map_option of_nat (digit_part False 0 ip)
      | _ # fp \<Rightarrow>
          (let scale = (10::rat) ^ length (filter (\<lambda>c. c \<noteq> CHR ''_'') fp) in
           if ip = [] then map_option (\<lambda>f. of_nat f / scale) (digit_part False 0 fp)
           else if fp = [] then map_option of_nat (digit_part False 0 ip)
           else (case (digit_part False 0 ip, digit_part False 0 fp) of
                   (Some i, Some f) \<Rightarrow> Some (of_nat i + of_nat f / scale)
                 | _ \<Rightarrow> None)))"

definition exponent :: "string \<Rightarrow> int option" where
  "exponent s =
     (case take_sign s of
        (neg, ds) \<Rightarrow> map_option (\<lambda>n. if neg then - int n else int n) (digit_part False 0 ds))"

definition scale10 :: "rat \<Rightarrow> int \<Rightarrow> rat" where
  "scale10 r e = (if 0 \<le> e then r * 10 ^ nat e else r / 10 ^ nat (- e))"

definition py_float :: "string \<Rightarrow> pyfloat option" where
  "py_float s =
     (case take_sign (strip s) of
        (neg, body) \<Rightarrow>
          if lower body \<in> set [''inf'', ''infinity''] then Some (if neg then NegInf else PosInf)
          else if lower body = ''nan'' then Some NaN
          else
            (let m = takeWhile (\<lambda>c. \<not> is_exp_char c) body;
                 rest = dropWhile (\<lambda>c. \<not> is_exp_char c) body;
                 ex = (case rest of [] \<Rightarrow> Some 0 | _ # es \<Rightarrow> exponent es)
             in case (mantissa m, ex) of
                  (Some r, Some e) \<Rightarrow> Some (Fin (scale10 (if neg then - r else r) e))
                | _ \<Rightarrow> None))"

text \<open>\<open>lo <= x <= hi\<close> on a float and two rational bounds; false on NaN and the infinities.\<close>

fun float_between :: "rat \<Rightarrow> pyfloat \<Rightarrow> rat \<Rightarrow> bool" where
  "float_between lo (Fin x) hi = (lo \<le> x \<and> x \<le> hi)"
| "float_between lo _ hi = False"

subsection \<open>\<open>str(v)\<close>, \<open>x in v\<close> and truthiness of a value\<close>

fun str_nat :: "nat \<Rightarrow> string" where
  "str_nat n =
     (if n < 10 then [''0123456789'' ! n]
      else str_nat (n div 10) @ [''0123456789'' ! (n mod 10)])"

declare str_nat.simps [simp del]

definition str_int :: "int \<Rightarrow> string" where
  "str_int i = (if i < 0 then CHR ''-'' # str_nat (nat (- i)) else str_nat (nat i))"

text \<open>\<open>repr\<close> of a string: single quotes unless the string holds a single quote and no
  double quote; the quote, the backslash and the control characters are escaped.\<close>

definition repr_quote :: "string \<Rightarrow> char" where
  "repr_quote s = (if CHR 0x27 \<in> set s \<and> CHR 0x22 \<notin> set s then CHR 0x22 else CHR 0x27)"

definition repr_char :: "char \<Rightarrow> char \<Rightarrow> string" where
  "repr_char q c =
     (if c = q \<or> c = CHR 0x5C then [CHR 0x5C, c]
      else if c = CHR 0x09 then [CHR 0x5C, CHR ''t'']
      else if c = CHR 0x0A then [CHR 0x5C, CHR ''n'']
      else if c = CHR 0x0D then [CHR 0x5C, CHR ''r'']
      else if (of_char c :: nat) < 32 \<or> (of_char c :: nat) = 127
        then [CHR 0x5C, CHR ''x'', ''0123456789abcdef'' ! ((of_char c :: nat) div 16),
              ''0123456789abcdef'' ! ((of_char c :: nat) mod 16)]
      else [c])"

definition repr_str :: "string \<Rightarrow> string" where
  "repr_str s = (let q = repr_quote s in [q] @ concat (map (repr_char q) s) @ [q])"

fun join :: "string \<Rightarrow> string list \<Rightarrow> string" where
  "join sep [] = []"
| "join sep [x] = x"
| "join sep (x # y # ys) = x @ sep @ join sep (y # ys)"

fun py_str :: "pyval \<Rightarrow> string" where
  "py_str PNone = ''None''"
| "py_str (PStr s) = s"
| "py_str (PInt i) = str_int i"
| "py_str (PList xs) = ''['' @ join '', '' (map repr_str xs) @ '']''"

text \<open>\<open>py_in x v\<close> is \<open>x in v\<close> for a string \<open>x\<close>: substring test on a string, membership on
  a list, TypeError on \<open>None\<close> and on a number.\<close>

fun py_in :: "string \<Rightarrow> pyval \<Rightarrow> pyerror + bool" where
  "py_in x (PStr s) = Inr (str_in x s)"
| "py_in x (PList xs) = Inr (x \<in> set xs)"
| "py_in x PNone = Inl TypeError"
| "py_in x (PInt i) = Inl TypeError"

fun truthy :: "pyval \<Rightarrow> bool" where
  "truthy PNone = False"
| "truthy (PStr s) = (s \<noteq> [])"
| "truthy (PInt i) = (i \<noteq> 0)"
| "truthy (PList xs) = (xs \<noteq> [])"

text \<open>\<open>[metadata.get(f) for f in fields if f in metadata]\<close>\<close>

definition present_values :: "metadata \<Rightarrow> string list \<Rightarrow> pyval list" where
  "present_values m fields = concat (map (\<lambda>f. case map_of m f of None \<Rightarrow> [] | Some v \<Rightarrow> [v]) fields)"

section \<open>The four checkers\<close>

subsection \<open>check\_basic\_integrity\<close>

definition valid_file_type :: "metadata \<Rightarrow> bool" where
  "valid_file_type m =
     (case map_of m ''FileType'' of
        Some (PStr s) \<Rightarrow> s \<in> set [''PNG'', ''JPEG'', ''JPG'', ''TIFF'']
      | _ \<Rightarrow> False)"

text \<open>The file size branch. \<open>size_str.split\<close> exists on strings only, and \<open>int\<close> and
  \<open>float\<close> raise ValueError on text they cannot read; nothing here is caught.\<close>

definition size_magnitude :: "string \<Rightarrow> pyval \<Rightarrow> pyerror + string" where
  "size_magnitude unit v =
     (case v of PStr s \<Rightarrow> Inr (split_head (CHR '' '' # unit) s) | _ \<Rightarrow> Inl AttributeError)"

definition reasonable_size :: "metadata \<Rightarrow> pyerror + bool" where
  "reasonable_size m =
     (case map_of m ''FileSize'' of
        None \<Rightarrow> Inr False
      | Some size_str \<Rightarrow>
          (case py_in ''kB'' size_str of
             Inl e \<Rightarrow> Inl e
           | Inr True \<Rightarrow>
               (case size_magnitude ''kB'' size_str of
                  Inl e \<Rightarrow> Inl e
                | Inr t \<Rightarrow>
                    (case py_int t of
                       None \<Rightarrow> Inl ValueError
                     | Some size_kb \<Rightarrow> Inr (1 \<le> size_kb \<and> size_kb \<le> 50000)))
           | Inr False \<Rightarrow>
               (case py_in ''MB'' size_str of
                  Inl e \<Rightarrow> Inl e
                | Inr True \<Rightarrow>
                    (case size_magnitude ''MB'' size_str of
                       Inl e \<Rightarrow> Inl e
                     | Inr t \<Rightarrow>
                         (case py_float t of
                            None \<Rightarrow> Inl ValueError
                          | Some size_mb \<Rightarrow> Inr (float_between (1 / 1000) size_mb 50)))
                | Inr False \<Rightarrow> Inr False)))"

definition consistent_dates :: "metadata \<Rightarrow> bool" where
  "consistent_dates m =
     (let existing_dates = present_values m [''FileModifyDate'', ''FileCreateDate'', ''DateTimeOriginal'']
      in if length existing_dates \<ge> 2
         then list_all (\<lambda>date. str_in ''202'' (py_str date)) existing_dates
         else False)"

definition check_basic_integrity :: "metadata \<Rightarrow> pyerror + checkresult" where
  "check_basic_integrity m =
     (case reasonable_size m of
        Inl e \<Rightarrow> Inl e
      | Inr rs \<Rightarrow>
          Inr [(''valid_file_type'', valid_file_type m),
               (''reasonable_size'', rs),
               (''has_metadata'', length m > 5),
               (''consistent_dates'', consistent_dates m)])"

subsection \<open>check\_c2pa\_authenticity\<close>

definition c2pa_indicators :: "string list" where
  "c2pa_indicators = [''c2pa'', ''JUMD'', ''ActiveManifestUrl'', ''ClaimSignatureUrl'']"

definition has_c2pa_manifest :: "metadata \<Rightarrow> bool" where
  "has_c2pa_manifest m =
     list_ex (\<lambda>indicator.
        list_ex (\<lambda>(key, value).
           str_in (lower indicator) (lower key) \<or> str_in (lower indicator) (lower (py_str value))) m)
       c2pa_indicators"

definition ai_keywords :: "string list" where
  "ai_keywords = [''generative ai'', ''google ai'', ''algorithmicmedia'', ''created'']"

definition ai_disclosure :: "metadata \<Rightarrow> bool" where
  "ai_disclosure m =
     list_ex (\<lambda>keyword.
        list_ex (\<lambda>value. str_in keyword (lower (py_str value)))
          (filter (\<lambda>value. value \<noteq> PNone) (map snd m)))
       ai_keywords"

definition critical_validations :: "string list" where
  "critical_validations = [''signingCredential'', ''timeStamp'', ''claimSignature'']"

text \<open>Iterating over the validation codes: a list gives its strings, a string gives its
  characters one by one, anything else is not iterable.\<close>

fun iterate :: "pyval \<Rightarrow> pyerror + string list" where
  "iterate (PList xs) = Inr xs"
| "iterate (PStr s) = Inr (map (\<lambda>c. [c]) s)"
| "iterate PNone = Inl TypeError"
| "iterate (PInt i) = Inl TypeError"

definition validation_passed :: "metadata \<Rightarrow> pyerror + bool" where
  "validation_passed m =
     (case map_of m ''ValidationResultsActiveManifestSuccessCode'' of
        None \<Rightarrow> Inr False
      | Some validation_codes \<Rightarrow>
          (case iterate validation_codes of
             Inl e \<Rightarrow> Inl e
           | Inr codes \<Rightarrow>
               Inr (list_ex (\<lambda>critical. list_ex (\<lambda>code. str_in critical code) codes)
                      critical_validations)))"

definition check_c2pa_authenticity :: "metadata \<Rightarrow> pyerror + checkresult" where
  "check_c2pa_authenticity m =
     (case validation_passed m of
        Inl e \<Rightarrow> Inl e
      | Inr vp \<Rightarrow>
          Inr [(''has_c2pa_manifest'', has_c2pa_manifest m),
               (''valid_signature'', has_key m ''ClaimSignatureUrl''),
               (''hash_validation'', has_key m ''ActiveManifestHash''),
               (''ai_disclosure'', ai_disclosure m),
               (''validation_passed'', vp)])"

subsection \<open>check\_ai\_indicators\<close>

definition ai_terms :: "string list" where
  "ai_terms = [''ai'', ''generative'', ''stable diffusion'', ''midjourney'', ''dall-e'', ''google ai'']"

definition explicit_ai_credit :: "metadata \<Rightarrow> bool" where
  "explicit_ai_credit m =
     list_ex (\<lambda>field.
        case map_of m field of
          None \<Rightarrow> False
        | Some v \<Rightarrow> list_ex (\<lambda>ai_term. str_in ai_term (lower (py_str v))) ai_terms)
       [''Credit'', ''Creator'', ''Software'', ''ProcessingSoftware'']"

text \<open>\<open>any(term in v for term in terms)\<close>, stopping at the first hit or the first error.\<close>

fun any_in :: "string list \<Rightarrow> pyval \<Rightarrow> pyerror + bool" where
  "any_in [] v = Inr False"
| "any_in (t # ts) v =
     (case py_in t v of
        Inl e \<Rightarrow> Inl e
      | Inr True \<Rightarrow> Inr True
      | Inr False \<Rightarrow> any_in ts v)"

definition generative_actions :: "metadata \<Rightarrow> pyerror + bool" where
  "generative_actions m =
     (case map_of m ''ActionsDescription'' of
        None \<Rightarrow> Inr False
      | Some desc \<Rightarrow> any_in [''generative'', ''created'', ''ai''] desc)"

definition digital_source_type :: "metadata \<Rightarrow> bool" where
  "digital_source_type m =
     (case map_of m ''DigitalSourceType'' of
        None \<Rightarrow> False
      | Some v \<Rightarrow> str_in ''algorithmicmedia'' (lower (py_str v)))"

definition check_ai_indicators :: "metadata \<Rightarrow> pyerror + checkresult" where
  "check_ai_indicators m =
     (case generative_actions m of
        Inl e \<Rightarrow> Inl e
      | Inr ga \<Rightarrow>
          Inr [(''explicit_ai_credit'', explicit_ai_credit m),
               (''generative_actions'', ga),
               (''digital_source_type'', digital_source_type m),
               (''creation_tools'', has_key m ''Claim_Generator_InfoName'')])"

subsection \<open>check\_tampering\_indicators\<close>

fun hashable :: "pyval \<Rightarrow> bool" where
  "hashable (PList xs) = False"
| "hashable v = True"

text \<open>\<open>len(set(software_used)) > 2\<close>; building the set raises TypeError on a list value.\<close>

definition multiple_editors :: "metadata \<Rightarrow> pyerror + bool" where
  "multiple_editors m =
     (let software_used =
            filter truthy (present_values m [''Software'', ''ProcessingSoftware'', ''CreatorTool''])
      in if list_ex (\<lambda>v. \<not> hashable v) software_used then Inl TypeError
         else Inr (length (remdups software_used) > 2))"

definition metadata_stripping :: "metadata \<Rightarrow> bool" where
  "metadata_stripping m = (length m < 10 \<and> has_key m ''FileType'')"

text \<open>\<open>int(date_str[0:4])\<close>: a slice of a list is a list, which \<open>int\<close> rejects; \<open>None\<close> and
  numbers cannot be sliced.\<close>

fun year_of :: "pyval \<Rightarrow> pyerror + int" where
  "year_of (PStr s) = (case py_int (take 4 s) of None \<Rightarrow> Inl ValueError | Some y \<Rightarrow> Inr y)"
| "year_of v = Inl TypeError"

text \<open>The loop over \<open>existing_dates\<close> that fills \<open>dates_parsed\<close>.\<close>

fun parse_years :: "pyval list \<Rightarrow> int list \<Rightarrow> pyerror + int list" where
  "parse_years [] dates_parsed = Inr dates_parsed"
| "parse_years (date_str # rest) dates_parsed =
     (case py_in ''202'' date_str of
        Inl e \<Rightarrow> Inl e
      | Inr False \<Rightarrow> parse_years rest dates_parsed
      | Inr True \<Rightarrow>
          (case year_of date_str of
             Inl e \<Rightarrow> Inl e
           | Inr year \<Rightarrow> parse_years rest (dates_parsed @ [year])))"

text \<open>The bare \<open>except: pass\<close> leaves the initial \<open>False\<close> in place.\<close>

definition date_anomalies :: "metadata \<Rightarrow> bool" where
  "date_anomalies m =
     (let existing_dates = present_values m [''DateTimeOriginal'', ''CreateDate'', ''ModifyDate'']
      in if length existing_dates \<ge> 2
         then (case parse_years existing_dates [] of
                 Inl e \<Rightarrow> False
               | Inr dates_parsed \<Rightarrow>
                   if length dates_parsed \<ge> 2 then dates_parsed \<noteq> sort dates_parsed else False)
         else False)"

definition check_tampering_indicators :: "metadata \<Rightarrow> pyerror + checkresult" where
  "check_tampering_indicators m =
     (case multiple_editors m of
        Inl e \<Rightarrow> Inl e
      | Inr me \<Rightarrow>
          Inr [(''inconsistent_software'', False),
               (''multiple_editors'', me),
               (''metadata_stripping'', metadata_stripping m),
               (''date_anomalies'', date_anomalies m)])"

section \<open>Score, verdict and recommendations\<close>

text \<open>
  Python computes the score in double precision. The model computes it in exact rational
  arithmetic, with the weights \<open>0.3\<close>, \<open>0.4\<close>, \<open>0.2\<close>, \<open>0.1\<close> as the fractions they are
  written as.
\<close>

text \<open>\<open>sum(d.values())\<close> on a dictionary of booleans.\<close>

definition sum_values :: "checkresult \<Rightarrow> nat" where
  "sum_values d = length (filter snd d)"

text \<open>\<open>sum(d.values()) / len(d)\<close>\<close>

definition group_ratio :: "checkresult \<Rightarrow> pyerror + rat" where
  "group_ratio d =
     (if length d = 0 then Inl ZeroDivisionError
      else Inr (of_nat (sum_values d) / of_nat (length d)))"

text \<open>\<open>sum(...) / len(...) if any(c2pa_checks.values()) else 0\<close>\<close>

definition c2pa_score :: "checkresult \<Rightarrow> pyerror + rat" where
  "c2pa_score d = (if list_ex snd d then group_ratio d else Inr 0)"

definition overall_score :: "rat \<Rightarrow> rat \<Rightarrow> rat \<Rightarrow> rat \<Rightarrow> rat" where
  "overall_score integrity_score c2pa_sc ai_score tampering_score =
     (integrity_score * (3 / 10) + c2pa_sc * (4 / 10) + ai_score * (2 / 10)
        + tampering_score * (1 / 10)) * 100"

definition calculate_authenticity_score ::
  "checkresult \<Rightarrow> checkresult \<Rightarrow> checkresult \<Rightarrow> checkresult \<Rightarrow> pyerror + rat" where
  "calculate_authenticity_score integrity_checks c2pa_checks ai_checks tampering_checks =
     (case group_ratio integrity_checks of
        Inl e \<Rightarrow> Inl e
      | Inr integrity_score \<Rightarrow>
          (case c2pa_score c2pa_checks of
             Inl e \<Rightarrow> Inl e
           | Inr c2pa_sc \<Rightarrow>
               (case group_ratio ai_checks of
                  Inl e \<Rightarrow> Inl e
                | Inr ai_score \<Rightarrow>
                    (case group_ratio tampering_checks of
                       Inl e \<Rightarrow> Inl e
                     | Inr r \<Rightarrow>
                         Inr (min 100 (overall_score integrity_score c2pa_sc ai_score (1 - r)))))))"

definition get_verdict :: "rat \<Rightarrow> string" where
  "get_verdict score =
     (if score \<ge> 80 then ''HIGH_CONFIDENCE_AUTHENTIC''
      else if score \<ge> 60 then ''MODERATE_CONFIDENCE''
      else if score \<ge> 40 then ''LOW_CONFIDENCE''
      else ''POTENTIALLY_MANIPULATED'')"

record checks =
  integrity :: checkresult
  c2pa :: checkresult
  ai :: checkresult
  tampering :: checkresult

text \<open>\<open>d[k]\<close> with its KeyError.\<close>

definition lookup :: "('k \<times> 'v) list \<Rightarrow> 'k \<Rightarrow> pyerror + 'v" where
  "lookup d k = (case map_of d k of None \<Rightarrow> Inl KeyError | Some v \<Rightarrow> Inr v)"

definition get_recommendations :: "checks \<Rightarrow> rat \<Rightarrow> pyerror + string list" where
  "get_recommendations chk score =
     (let r1 = (if score < 60 then [''Exercise caution when using this image''] else []) in
      case lookup (c2pa chk) ''has_c2pa_manifest'' of
        Inl e \<Rightarrow> Inl e
      | Inr manifest \<Rightarrow>
          (let r2 = r1 @ (if \<not> manifest then [''No digital provenance data found''] else []) in
           case lookup (tampering chk) ''multiple_editors'' of
             Inl e \<Rightarrow> Inl e
           | Inr editors \<Rightarrow>
               (let r3 = r2 @ (if editors
                                then [''Multiple editing tools detected - verify source'']
                                else []) in
                case lookup (ai chk) ''explicit_ai_credit'' of
                  Inl e \<Rightarrow> Inl e
                | Inr credit \<Rightarrow>
                    Inr (r3 @ (if credit \<and> score < 70
                               then [''AI-generated content - verify intended use'']
                               else [])))))"

section \<open>Reports and the analysis of one image\<close>

text \<open>
  Two things come from outside: \<open>extract\<close> stands for \<open>extract_metadata\<close>, the call of
  ExifTool, with \<open>None\<close> for each of its failures, and \<open>clock\<close> gives the timestamp
  \<open>datetime.now().isoformat()\<close> taken while the report for a path is built.
\<close>

record report =
  timestamp :: string
  image_path :: string
  file_size :: pyval
  file_type :: pyval
  authenticity_score :: rat
  verdict :: string
  detailed_checks :: checks
  recommendations :: "string list"

text \<open>What \<open>analyze_image\<close> returns: a report, or the dictionary \<open>{"error": message}\<close>.\<close>

datatype result = Report report | ErrorResult string

definition get_or :: "metadata \<Rightarrow> string \<Rightarrow> pyval \<Rightarrow> pyval" where
  "get_or m k dflt = (case map_of m k of None \<Rightarrow> dflt | Some v \<Rightarrow> v)"

definition generate_report ::
  "string \<Rightarrow> string \<Rightarrow> metadata \<Rightarrow> rat \<Rightarrow> checks \<Rightarrow> pyerror + report" where
  "generate_report now path m score chk =
     (case get_recommendations chk score of
        Inl e \<Rightarrow> Inl e
      | Inr recs \<Rightarrow>
          Inr \<lparr>timestamp = now,
               image_path = path,
               file_size = get_or m ''FileSize'' (PStr ''Unknown''),
               file_type = get_or m ''FileType'' (PStr ''Unknown''),
               authenticity_score = score,
               verdict = get_verdict score,
               detailed_checks = chk,
               recommendations = recs\<rparr>)"

definition analyze_metadata :: "string \<Rightarrow> string \<Rightarrow> metadata \<Rightarrow> pyerror + report" where
  "analyze_metadata now path m =
     (case check_basic_integrity m of
        Inl e \<Rightarrow> Inl e
      | Inr integrity_checks \<Rightarrow>
          (case check_c2pa_authenticity m of
             Inl e \<Rightarrow> Inl e
           | Inr c2pa_checks \<Rightarrow>
               (case check_ai_indicators m of
                  Inl e \<Rightarrow> Inl e
                | Inr ai_checks \<Rightarrow>
                    (case check_tampering_indicators m of
                       Inl e \<Rightarrow> Inl e
                     | Inr tampering_checks \<Rightarrow>
                         (case calculate_authenticity_score integrity_checks c2pa_checks
                                 ai_checks tampering_checks of
                            Inl e \<Rightarrow> Inl e
                          | Inr score \<Rightarrow>
                              generate_report now path m score
                                \<lparr>integrity = integrity_checks, c2pa = c2pa_checks,
                                 ai = ai_checks, tampering = tampering_checks\<rparr>)))))"

text \<open>\<open>if not metadata\<close> is taken by \<open>None\<close> and by the empty dictionary alike.\<close>

definition analyze_image ::
  "(string \<Rightarrow> metadata option) \<Rightarrow> (string \<Rightarrow> string) \<Rightarrow> string \<Rightarrow> pyerror + result" where
  "analyze_image extract clock path =
     (case extract path of
        None \<Rightarrow> Inr (ErrorResult ''Could not extract metadata'')
      | Some m \<Rightarrow>
          if m = [] then Inr (ErrorResult ''Could not extract metadata'')
          else (case analyze_metadata (clock path) path m of
                  Inl e \<Rightarrow> Inl e
                | Inr r \<Rightarrow> Inr (Report r)))"

section \<open>Batch analysis\<close>

text \<open>
  \<open>listing\<close> stands for the file names \<open>os.listdir\<close> returns, and \<open>str_exc\<close> for the
  message \<open>str(e)\<close> of a caught exception, which the error type of the model does not carry.
  Paths are joined as \<open>posixpath.join\<close> joins two components. The summary is the dictionary
  \<open>summary\<close> that \<open>generate_summary_report\<close> fills, with \<open>None\<close> for the answer
  \<open>["No valid images analyzed"]\<close>; its rendering as text lines is left out.
\<close>

definition ends_with :: "string \<Rightarrow> string \<Rightarrow> bool" where
  "ends_with s suffix = starts_with (rev s) (rev suffix)"

definition image_extensions :: "string list" where
  "image_extensions = [''.jpg'', ''.jpeg'', ''.png'', ''.tiff'', ''.tif'', ''.webp'']"

definition is_image :: "string \<Rightarrow> bool" where
  "is_image filename = list_ex (\<lambda>ext. ends_with (lower filename) ext) image_extensions"

definition path_join :: "string \<Rightarrow> string \<Rightarrow> string" where
  "path_join a b =
     (if starts_with b ''/'' then b
      else if a = [] \<or> ends_with a ''/'' then a @ b
      else a @ ''/'' @ b)"

fun analyze_directory ::
  "(string \<Rightarrow> metadata option) \<Rightarrow> (string \<Rightarrow> string) \<Rightarrow> (pyerror \<Rightarrow> string) \<Rightarrow>
   string list \<Rightarrow> string \<Rightarrow> result list" where
  "analyze_directory extract clock str_exc [] directory_path = []"
| "analyze_directory extract clock str_exc (filename # rest) directory_path =
     (if is_image filename
      then (case analyze_image extract clock (path_join directory_path filename) of
              Inr r \<Rightarrow> r
            | Inl e \<Rightarrow> ErrorResult (''Failed to analyze '' @ filename @ '': '' @ str_exc e))
           # analyze_directory extract clock str_exc rest directory_path
      else analyze_directory extract clock str_exc rest directory_path)"

record summary =
  total_images :: nat
  average_score :: rat
  high :: nat
  medium :: nat
  low :: nat
  suspicious :: nat
  c2pa_images :: nat
  ai_generated_images :: nat

text \<open>\<open>[r for r in results if 'authenticity_score' in r]\<close>\<close>

fun valid_results :: "result list \<Rightarrow> report list" where
  "valid_results [] = []"
| "valid_results (Report r # rs) = r # valid_results rs"
| "valid_results (ErrorResult msg # rs) = valid_results rs"

definition categorize :: "rat \<Rightarrow> summary \<Rightarrow> summary" where
  "categorize score s =
     (if score \<ge> 80 then s\<lparr>high := high s + 1\<rparr>
      else if score \<ge> 60 then s\<lparr>medium := medium s + 1\<rparr>
      else if score \<ge> 40 then s\<lparr>low := low s + 1\<rparr>
      else s\<lparr>suspicious := suspicious s + 1\<rparr>)"

text \<open>The loop over \<open>valid_results\<close>, carrying \<open>summary\<close> and \<open>scores\<close>.\<close>

fun summarise :: "report list \<Rightarrow> summary \<Rightarrow> rat list \<Rightarrow> pyerror + summary \<times> rat list" where
  "summarise [] s scores = Inr (s, scores)"
| "summarise (r # rs) s scores =
     (let score = authenticity_score r;
          s1 = categorize score s
      in case lookup (c2pa (detailed_checks r)) ''has_c2pa_manifest'' of
           Inl e \<Rightarrow> Inl e
         | Inr manifest \<Rightarrow>
             (let s2 = (if manifest then s1\<lparr>c2pa_images := c2pa_images s1 + 1\<rparr> else s1);
                  s3 = (if list_ex snd (ai (detailed_checks r))
                        then s2\<lparr>ai_generated_images := ai_generated_images s2 + 1\<rparr> else s2)
              in summarise rs s3 (scores @ [score])))"

definition generate_summary_report :: "result list \<Rightarrow> pyerror + summary option" where
  "generate_summary_report results =
     (let valid = valid_results results in
      if valid = [] then Inr None
      else (case summarise valid
                   \<lparr>total_images = length valid, average_score = 0, high = 0, medium = 0,
                    low = 0, suspicious = 0, c2pa_images = 0, ai_generated_images = 0\<rparr> [] of
              Inl e \<Rightarrow> Inl e
            | Inr (s, scores) \<Rightarrow>
                Inr (Some (if scores \<noteq> []
                           then s\<lparr>average_score := sum_list scores / of_nat (length scores)\<rparr>
                           else s))))"

section \<open>Notions used to state the properties\<close>

text \<open>\<open>d[k] = v\<close> on a dictionary: an existing key keeps its place, a new one goes last.\<close>

fun assign :: "string \<Rightarrow> bool \<Rightarrow> checkresult \<Rightarrow> checkresult" where
  "assign k v [] = [(k, v)]"
| "assign k v ((k', v') # d) = (if k' = k then (k, v) # d else (k', v') # assign k v d)"



text \<open>
  The batch summary in the words of the specification, over the reports alone: their number,
  their mean score, the four bands of the verdict, the reports with a provenance manifest
  and the reports with some AI indicator.
\<close>

definition count_where :: "('a \<Rightarrow> bool) \<Rightarrow> 'a list \<Rightarrow> nat" where
  "count_where P xs = length (filter P xs)"

definition summary_spec :: "report list \<Rightarrow> summary" where
  "summary_spec valid =
     \<lparr>total_images = length valid,
      average_score = sum_list (map authenticity_score valid) / of_nat (length valid),
      high = count_where (\<lambda>r. 80 \<le> authenticity_score r) valid,
      medium = count_where (\<lambda>r. 60 \<le> authenticity_score r \<and> authenticity_score r < 80) valid,
      low = count_where (\<lambda>r. 40 \<le> authenticity_score r \<and> authenticity_score r < 60) valid,
      suspicious = count_where (\<lambda>r. authenticity_score r < 40) valid,
      c2pa_images =
        count_where (\<lambda>r. map_of (c2pa (detailed_checks r)) ''has_c2pa_manifest'' = Some True) valid,
      ai_generated_images = count_where (\<lambda>r. list_ex snd (ai (detailed_checks r))) valid\<rparr>"

text \<open>Whether an entry of the batch result is a report.\<close>

fun is_report :: "result \<Rightarrow> bool" where
  "is_report (Report r) = True"
| "is_report (ErrorResult msg) = False"

section \<open>Properties of the scoring engine\<close>

subsection \<open>Range of the score and the verdict bands\<close>

lemma sum_values_le_length: "sum_values d \<le> length d"
  by (simp add: sum_values_def)

lemma group_ratio_bounds:
  assumes "group_ratio d = Inr r"
  shows "0 \<le> r \<and> r \<le> 1"
proof -
  from assms have ne: "length d \<noteq> 0" and r: "r = of_nat (sum_values d) / of_nat (length d)"
    by (auto simp: group_ratio_def split: if_splits)
  have "(of_nat (sum_values d) :: rat) \<le> of_nat (length d)"
    using sum_values_le_length [of d] by (simp only: of_nat_le_iff)
  with ne r show ?thesis by (simp add: divide_le_eq_1)
qed

lemma c2pa_score_bounds:
  assumes "c2pa_score d = Inr r"
  shows "0 \<le> r \<and> r \<le> 1"
  using assms group_ratio_bounds [of d r] by (auto simp: c2pa_score_def split: if_splits)

lemma overall_score_bounds:
  assumes "0 \<le> x \<and> x \<le> 1" "0 \<le> y \<and> y \<le> 1" "0 \<le> z \<and> z \<le> 1" "0 \<le> w \<and> w \<le> 1"
  shows "0 \<le> overall_score x y z (1 - w) \<and> overall_score x y z (1 - w) \<le> 100"
  using assms unfolding overall_score_def by (auto simp: field_simps)

lemma score_range:
  assumes "calculate_authenticity_score i c a t = Inr s"
  shows "0 \<le> s \<and> s \<le> 100"
proof -
  from assms obtain x y z w where
    x: "group_ratio i = Inr x" and y: "c2pa_score c = Inr y" and
    z: "group_ratio a = Inr z" and w: "group_ratio t = Inr w" and
    s: "s = min 100 (overall_score x y z (1 - w))"
    by (auto simp: calculate_authenticity_score_def split: sum.splits)
  from overall_score_bounds [OF group_ratio_bounds [OF x] c2pa_score_bounds [OF y]
      group_ratio_bounds [OF z] group_ratio_bounds [OF w]] s
  show ?thesis by simp
qed

lemma group_ratio_total: "d \<noteq> [] \<Longrightarrow> \<exists>r. group_ratio d = Inr r"
  by (simp add: group_ratio_def)

lemma c2pa_score_total: "\<exists>r. c2pa_score d = Inr r"
  by (cases d) (auto simp: c2pa_score_def group_ratio_def)

lemma score_total:
  assumes "i \<noteq> []" "a \<noteq> []" "t \<noteq> []"
  shows "\<exists>s. calculate_authenticity_score i c a t = Inr s"
proof -
  obtain x where x: "group_ratio i = Inr x" using group_ratio_total [OF assms(1)] ..
  obtain y where y: "c2pa_score c = Inr y" using c2pa_score_total [of c] ..
  obtain z where z: "group_ratio a = Inr z" using group_ratio_total [OF assms(2)] ..
  obtain w where w: "group_ratio t = Inr w" using group_ratio_total [OF assms(3)] ..
  show ?thesis by (simp add: calculate_authenticity_score_def x y z w)
qed

lemma verdict_bands:
  "(get_verdict s = ''HIGH_CONFIDENCE_AUTHENTIC'' \<longleftrightarrow> 80 \<le> s) \<and>
   (get_verdict s = ''MODERATE_CONFIDENCE'' \<longleftrightarrow> 60 \<le> s \<and> s < 80) \<and>
   (get_verdict s = ''LOW_CONFIDENCE'' \<longleftrightarrow> 40 \<le> s \<and> s < 60) \<and>
   (get_verdict s = ''POTENTIALLY_MANIPULATED'' \<longleftrightarrow> s < 40)"
  by (auto simp: get_verdict_def)

text \<open>
  Claim C1. For every metadata record on which the four checkers return, the score that
  \<open>calculate_authenticity_score\<close> computes from their results exists and lies between 0 and
  100, and \<open>get_verdict\<close> puts it in exactly one of four bands, each closed at its lower
  end: HIGH\_CONFIDENCE\_AUTHENTIC from 80, MODERATE\_CONFIDENCE from 60, LOW\_CONFIDENCE from
  40, POTENTIALLY\_MANIPULATED below 40.
\<close>

theorem score_in_range_and_verdict:
  assumes "check_basic_integrity m = Inr i" "check_c2pa_authenticity m = Inr c"
    "check_ai_indicators m = Inr a" "check_tampering_indicators m = Inr t"
  shows "\<exists>s. calculate_authenticity_score i c a t = Inr s \<and> 0 \<le> s \<and> s \<le> 100 \<and>
    (get_verdict s = ''HIGH_CONFIDENCE_AUTHENTIC'' \<longleftrightarrow> 80 \<le> s) \<and>
    (get_verdict s = ''MODERATE_CONFIDENCE'' \<longleftrightarrow> 60 \<le> s \<and> s < 80) \<and>
    (get_verdict s = ''LOW_CONFIDENCE'' \<longleftrightarrow> 40 \<le> s \<and> s < 60) \<and>
    (get_verdict s = ''POTENTIALLY_MANIPULATED'' \<longleftrightarrow> s < 40)"
proof -
  from assms(1) have "i \<noteq> []" by (auto simp: check_basic_integrity_def split: sum.splits)
  moreover from assms(3) have "a \<noteq> []" by (auto simp: check_ai_indicators_def split: sum.splits)
  moreover from assms(4) have "t \<noteq> []"
    by (auto simp: check_tampering_indicators_def split: sum.splits)
  ultimately obtain s where s: "calculate_authenticity_score i c a t = Inr s"
    using score_total by blast
  from score_range [OF s] s verdict_bands [of s] show ?thesis by blast
qed


theorem score_in_range_and_verdict_witness:
  "check_basic_integrity [(''FileType'', PStr ''PNG''), (''FileSize'', PStr ''200 kB'')]
     = Inr [(''valid_file_type'', True), (''reasonable_size'', True),
            (''has_metadata'', False), (''consistent_dates'', False)] \<and>
   check_c2pa_authenticity [(''FileType'', PStr ''PNG''), (''FileSize'', PStr ''200 kB'')]
     = Inr [(''has_c2pa_manifest'', False), (''valid_signature'', False),
            (''hash_validation'', False), (''ai_disclosure'', False),
            (''validation_passed'', False)] \<and>
   check_ai_indicators [(''FileType'', PStr ''PNG''), (''FileSize'', PStr ''200 kB'')]
     = Inr [(''explicit_ai_credit'', False), (''generative_actions'', False),
            (''digital_source_type'', False), (''creation_tools'', False)] \<and>
   check_tampering_indicators [(''FileType'', PStr ''PNG''), (''FileSize'', PStr ''200 kB'')]
     = Inr [(''inconsistent_software'', False), (''multiple_editors'', False),
            (''metadata_stripping'', True), (''date_anomalies'', False)] \<and>
   (\<exists>s. calculate_authenticity_score
          [(''valid_file_type'', True), (''reasonable_size'', True),
           (''has_metadata'', False), (''consistent_dates'', False)]
          [(''has_c2pa_manifest'', False), (''valid_signature'', False),
           (''hash_validation'', False), (''ai_disclosure'', False),
           (''validation_passed'', False)]
          [(''explicit_ai_credit'', False), (''generative_actions'', False),
           (''digital_source_type'', False), (''creation_tools'', False)]
          [(''inconsistent_software'', False), (''multiple_editors'', False),
           (''metadata_stripping'', True), (''date_anomalies'', False)] = Inr s \<and>
        0 \<le> s \<and> s \<le> 100 \<and>
        (get_verdict s = ''HIGH_CONFIDENCE_AUTHENTIC'' \<longleftrightarrow> 80 \<le> s) \<and>
        (get_verdict s = ''MODERATE_CONFIDENCE'' \<longleftrightarrow> 60 \<le> s \<and> s < 80) \<and>
        (get_verdict s = ''LOW_CONFIDENCE'' \<longleftrightarrow> 40 \<le> s \<and> s < 60) \<and>
        (get_verdict s = ''POTENTIALLY_MANIPULATED'' \<longleftrightarrow> s < 40))"
proof -
  have h1: "check_basic_integrity [(''FileType'', PStr ''PNG''), (''FileSize'', PStr ''200 kB'')]
     = Inr [(''valid_file_type'', True), (''reasonable_size'', True),
            (''has_metadata'', False), (''consistent_dates'', False)]"
    by code_simp
  have h2: "check_c2pa_authenticity [(''FileType'', PStr ''PNG''), (''FileSize'', PStr ''200 kB'')]
     = Inr [(''has_c2pa_manifest'', False), (''valid_signature'', False),
            (''hash_validation'', False), (''ai_disclosure'', False),
            (''validation_passed'', False)]"
    by code_simp
  have h3: "check_ai_indicators [(''FileType'', PStr ''PNG''), (''FileSize'', PStr ''200 kB'')]
     = Inr [(''explicit_ai_credit'', False), (''generative_actions'', False),
            (''digital_source_type'', False), (''creation_tools'', False)]"
    by code_simp
  have h4: "check_tampering_indicators [(''FileType'', PStr ''PNG''), (''FileSize'', PStr ''200 kB'')]
     = Inr [(''inconsistent_software'', False), (''multiple_editors'', False),
            (''metadata_stripping'', True), (''date_anomalies'', False)]"
    by code_simp
  from score_in_range_and_verdict [OF h1 h2 h3 h4] h1 h2 h3 h4 show ?thesis by blast
qed

subsection \<open>Monotonicity of the score\<close>

lemma length_assign_present: "map_of d k = Some v \<Longrightarrow> length (assign k w d) = length d"
  by (induction d) (auto split: if_splits)

lemma sum_values_assign_true:
  "map_of d k = Some False \<Longrightarrow> sum_values (assign k True d) = Suc (sum_values d)"
  by (induction d) (auto simp: sum_values_def split: if_splits)

lemma group_ratio_assign_true:
  assumes "map_of d k = Some False" "group_ratio d = Inr r"
  shows "\<exists>r'. group_ratio (assign k True d) = Inr r' \<and> r \<le> r'"
proof -
  from assms(2) have ne: "length d \<noteq> 0" and r: "r = of_nat (sum_values d) / of_nat (length d)"
    by (auto simp: group_ratio_def split: if_splits)
  have len: "length (assign k True d) = length d" by (rule length_assign_present [OF assms(1)])
  have sm: "sum_values (assign k True d) = Suc (sum_values d)"
    by (rule sum_values_assign_true [OF assms(1)])
  have "group_ratio (assign k True d) = Inr (of_nat (Suc (sum_values d)) / of_nat (length d))"
    using ne by (simp add: group_ratio_def len sm)
  moreover have "r \<le> of_nat (Suc (sum_values d)) / of_nat (length d)"
    using ne by (simp add: r divide_right_mono)
  ultimately show ?thesis by blast
qed

lemma list_ex_assign_true: "list_ex snd (assign k True d)"
  by (induction d) auto

lemma c2pa_score_assign_true:
  assumes "map_of d k = Some False" "c2pa_score d = Inr r"
  shows "\<exists>r'. c2pa_score (assign k True d) = Inr r' \<and> r \<le> r'"
proof (cases "list_ex snd d")
  case True
  with assms(2) have "group_ratio d = Inr r" by (simp add: c2pa_score_def)
  from group_ratio_assign_true [OF assms(1) this] show ?thesis
    by (simp add: c2pa_score_def list_ex_assign_true)
next
  case False
  with assms(2) have r: "r = 0" by (simp add: c2pa_score_def)
  from assms(1) have "d \<noteq> []" by auto
  then have "length (assign k True d) \<noteq> 0" using length_assign_present [OF assms(1)] by simp
  then obtain r' where r': "group_ratio (assign k True d) = Inr r'"
    by (auto simp: group_ratio_def)
  with group_ratio_bounds [OF r'] r show ?thesis
    by (simp add: c2pa_score_def list_ex_assign_true)
qed

lemma overall_score_mono:
  assumes "x \<le> x'" "y \<le> y'" "z \<le> z'" "w \<le> w'"
  shows "min 100 (overall_score x y z w) \<le> min 100 (overall_score x' y' z' w')"
proof -
  have "overall_score x y z w \<le> overall_score x' y' z' w'"
    using assms unfolding overall_score_def by (auto simp: field_simps)
  then show ?thesis by (rule min.mono [OF order_refl])
qed

lemma score_parts:
  "calculate_authenticity_score i c a t = Inr s \<longleftrightarrow>
   (\<exists>x y z w. group_ratio i = Inr x \<and> c2pa_score c = Inr y \<and> group_ratio a = Inr z \<and>
      group_ratio t = Inr w \<and> s = min 100 (overall_score x y z (1 - w)))"
  by (auto simp: calculate_authenticity_score_def split: sum.splits)

text \<open>
  Claim C3. With the other three groups held fixed, setting one key that is false to true
  in the integrity, provenance or AI group never lowers the score, and setting one key that
  is false to true in the tampering group never raises it.
\<close>

theorem score_monotone:
  assumes "calculate_authenticity_score i c a t = Inr s"
  shows "(map_of i k = Some False \<longrightarrow>
            (\<exists>s'. calculate_authenticity_score (assign k True i) c a t = Inr s' \<and> s \<le> s')) \<and>
         (map_of c k = Some False \<longrightarrow>
            (\<exists>s'. calculate_authenticity_score i (assign k True c) a t = Inr s' \<and> s \<le> s')) \<and>
         (map_of a k = Some False \<longrightarrow>
            (\<exists>s'. calculate_authenticity_score i c (assign k True a) t = Inr s' \<and> s \<le> s')) \<and>
         (map_of t k = Some False \<longrightarrow>
            (\<exists>s'. calculate_authenticity_score i c a (assign k True t) = Inr s' \<and> s' \<le> s))"
proof -
  from assms obtain x y z w where
    x: "group_ratio i = Inr x" and y: "c2pa_score c = Inr y" and
    z: "group_ratio a = Inr z" and w: "group_ratio t = Inr w" and
    s: "s = min 100 (overall_score x y z (1 - w))"
    unfolding score_parts by blast
  have "\<exists>s'. calculate_authenticity_score (assign k True i) c a t = Inr s' \<and> s \<le> s'"
    if h: "map_of i k = Some False"
  proof -
    from group_ratio_assign_true [OF h x] obtain x' where
      x': "group_ratio (assign k True i) = Inr x'" and le: "x \<le> x'" by blast
    have "calculate_authenticity_score (assign k True i) c a t
            = Inr (min 100 (overall_score x' y z (1 - w)))"
      unfolding score_parts using x' y z w by blast
    moreover have "s \<le> min 100 (overall_score x' y z (1 - w))"
      unfolding s by (rule overall_score_mono) (use le in simp_all)
    ultimately show ?thesis by blast
  qed
  moreover have "\<exists>s'. calculate_authenticity_score i (assign k True c) a t = Inr s' \<and> s \<le> s'"
    if h: "map_of c k = Some False"
  proof -
    from c2pa_score_assign_true [OF h y] obtain y' where
      y': "c2pa_score (assign k True c) = Inr y'" and le: "y \<le> y'" by blast
    have "calculate_authenticity_score i (assign k True c) a t
            = Inr (min 100 (overall_score x y' z (1 - w)))"
      unfolding score_parts using x y' z w by blast
    moreover have "s \<le> min 100 (overall_score x y' z (1 - w))"
      unfolding s by (rule overall_score_mono) (use le in simp_all)
    ultimately show ?thesis by blast
  qed
  moreover have "\<exists>s'. calculate_authenticity_score i c (assign k True a) t = Inr s' \<and> s \<le> s'"
    if h: "map_of a k = Some False"
  proof -
    from group_ratio_assign_true [OF h z] obtain z' where
      z': "group_ratio (assign k True a) = Inr z'" and le: "z \<le> z'" by blast
    have "calculate_authenticity_score i c (assign k True a) t
            = Inr (min 100 (overall_score x y z' (1 - w)))"
      unfolding score_parts using x y z' w by blast
    moreover have "s \<le> min 100 (overall_score x y z' (1 - w))"
      unfolding s by (rule overall_score_mono) (use le in simp_all)
    ultimately show ?thesis by blast
  qed
  moreover have "\<exists>s'. calculate_authenticity_score i c a (assign k True t) = Inr s' \<and> s' \<le> s"
    if h: "map_of t k = Some False"
  proof -
    from group_ratio_assign_true [OF h w] obtain w' where
      w': "group_ratio (assign k True t) = Inr w'" and le: "w \<le> w'" by blast
    have "calculate_authenticity_score i c a (assign k True t)
            = Inr (min 100 (overall_score x y z (1 - w')))"
      unfolding score_parts using x y z w' by blast
    moreover have "min 100 (overall_score x y z (1 - w')) \<le> s"
      unfolding s by (rule overall_score_mono) (use le in simp_all)
    ultimately show ?thesis by blast
  qed
  ultimately show ?thesis by blast
qed


theorem score_monotone_witness:
  "calculate_authenticity_score [(''a'', False), (''b'', True)] [(''c'', False)] [(''d'', False)]
      [(''e'', False), (''f'', False)] = Inr 25 \<and>
   map_of [(''a'', False), (''b'', True)] ''a'' = Some False \<and>
   map_of [(''c'', False)] ''c'' = Some False \<and>
   map_of [(''d'', False)] ''d'' = Some False \<and>
   map_of [(''e'', False), (''f'', False)] ''e'' = Some False \<and>
   (\<exists>s'. calculate_authenticity_score (assign ''a'' True [(''a'', False), (''b'', True)])
           [(''c'', False)] [(''d'', False)] [(''e'', False), (''f'', False)] = Inr s' \<and> 25 \<le> s') \<and>
   (\<exists>s'. calculate_authenticity_score [(''a'', False), (''b'', True)]
           (assign ''c'' True [(''c'', False)]) [(''d'', False)] [(''e'', False), (''f'', False)]
             = Inr s' \<and> 25 \<le> s') \<and>
   (\<exists>s'. calculate_authenticity_score [(''a'', False), (''b'', True)] [(''c'', False)]
           (assign ''d'' True [(''d'', False)]) [(''e'', False), (''f'', False)] = Inr s' \<and> 25 \<le> s') \<and>
   (\<exists>s'. calculate_authenticity_score [(''a'', False), (''b'', True)] [(''c'', False)]
           [(''d'', False)] (assign ''e'' True [(''e'', False), (''f'', False)]) = Inr s' \<and> s' \<le> 25)"
proof -
  have h: "calculate_authenticity_score [(''a'', False), (''b'', True)] [(''c'', False)]
      [(''d'', False)] [(''e'', False), (''f'', False)] = Inr 25"
    by code_simp
  have k1: "map_of [(''a'', False), (''b'', True)] ''a'' = Some False" by simp
  have k2: "map_of [(''c'', False)] ''c'' = Some False" by simp
  have k3: "map_of [(''d'', False)] ''d'' = Some False" by simp
  have k4: "map_of [(''e'', False), (''f'', False)] ''e'' = Some False" by simp
  from score_monotone [OF h, of "''a''"] k1 have g1:
    "\<exists>s'. calculate_authenticity_score (assign ''a'' True [(''a'', False), (''b'', True)])
           [(''c'', False)] [(''d'', False)] [(''e'', False), (''f'', False)] = Inr s' \<and> 25 \<le> s'"
    by blast
  from score_monotone [OF h, of "''c''"] k2 have g2:
    "\<exists>s'. calculate_authenticity_score [(''a'', False), (''b'', True)]
           (assign ''c'' True [(''c'', False)]) [(''d'', False)] [(''e'', False), (''f'', False)]
             = Inr s' \<and> 25 \<le> s'"
    by blast
  from score_monotone [OF h, of "''d''"] k3 have g3:
    "\<exists>s'. calculate_authenticity_score [(''a'', False), (''b'', True)] [(''c'', False)]
           (assign ''d'' True [(''d'', False)]) [(''e'', False), (''f'', False)] = Inr s' \<and> 25 \<le> s'"
    by blast
  from score_monotone [OF h, of "''e''"] k4 have g4:
    "\<exists>s'. calculate_authenticity_score [(''a'', False), (''b'', True)] [(''c'', False)]
           [(''d'', False)] (assign ''e'' True [(''e'', False), (''f'', False)]) = Inr s' \<and> s' \<le> 25"
    by blast
  from h k1 k2 k3 k4 g1 g2 g3 g4 show ?thesis by blast
qed

subsection \<open>The provenance scenario\<close>

lemma has_key_in_set: "has_key d k \<Longrightarrow> \<exists>v. (k, v) \<in> set d"
  by (auto simp: has_key_def dest: map_of_SomeD)

lemma has_c2pa_manifest_by_key:
  assumes "has_key m ''ClaimSignatureUrl''"
  shows "has_c2pa_manifest m"
proof -
  from has_key_in_set [OF assms] obtain v where v: "(''ClaimSignatureUrl'', v) \<in> set m" ..
  have "str_in (lower ''ClaimSignatureUrl'') (lower ''ClaimSignatureUrl'')"
    by (simp add: lower_def lower_char_def)
  with v have "list_ex (\<lambda>(key, value).
           str_in (lower ''ClaimSignatureUrl'') (lower key) \<or>
           str_in (lower ''ClaimSignatureUrl'') (lower (py_str value))) m"
    unfolding list_ex_iff by blast
  then show ?thesis
    by (simp add: has_c2pa_manifest_def c2pa_indicators_def)
qed

text \<open>
  Claim C2, as amended. A record that has the fields \<open>ClaimSignatureUrl\<close> and
  \<open>ActiveManifestHash\<close> and no field \<open>ValidationResultsActiveManifestSuccessCode\<close> gets
  \<open>has_c2pa_manifest\<close>, \<open>valid_signature\<close> and \<open>hash_validation\<close> true (the first through the
  key \<open>ClaimSignatureUrl\<close> itself) and \<open>validation_passed\<close> false. These are three true keys
  of five, so the provenance score the aggregator uses is 3/5 when no value holds an AI
  disclosure keyword, and 4/5 when one does.
\<close>

theorem provenance_scenario:
  assumes "has_key m ''ClaimSignatureUrl''" and "has_key m ''ActiveManifestHash''"
    and "\<not> has_key m ''ValidationResultsActiveManifestSuccessCode''"
  shows "check_c2pa_authenticity m =
           Inr [(''has_c2pa_manifest'', True), (''valid_signature'', True),
                (''hash_validation'', True), (''ai_disclosure'', ai_disclosure m),
                (''validation_passed'', False)] \<and>
         c2pa_score [(''has_c2pa_manifest'', True), (''valid_signature'', True),
                (''hash_validation'', True), (''ai_disclosure'', ai_disclosure m),
                (''validation_passed'', False)] = Inr (if ai_disclosure m then 4 / 5 else 3 / 5)"
proof -
  from assms(3) have "validation_passed m = Inr False"
    by (simp add: validation_passed_def has_key_def)
  with assms(1,2) has_c2pa_manifest_by_key [OF assms(1)] show ?thesis
    by (simp add: check_c2pa_authenticity_def c2pa_score_def group_ratio_def sum_values_def)
qed

theorem provenance_scenario_witness:
  "has_key [(''ClaimSignatureUrl'', PStr ''x''), (''ActiveManifestHash'', PStr ''y'')]
     ''ClaimSignatureUrl'' \<and>
   has_key [(''ClaimSignatureUrl'', PStr ''x''), (''ActiveManifestHash'', PStr ''y'')]
     ''ActiveManifestHash'' \<and>
   \<not> has_key [(''ClaimSignatureUrl'', PStr ''x''), (''ActiveManifestHash'', PStr ''y'')]
     ''ValidationResultsActiveManifestSuccessCode'' \<and>
   check_c2pa_authenticity [(''ClaimSignatureUrl'', PStr ''x''), (''ActiveManifestHash'', PStr ''y'')] =
           Inr [(''has_c2pa_manifest'', True), (''valid_signature'', True),
                (''hash_validation'', True), (''ai_disclosure'', False),
                (''validation_passed'', False)] \<and>
   c2pa_score [(''has_c2pa_manifest'', True), (''valid_signature'', True),
                (''hash_validation'', True), (''ai_disclosure'', False),
                (''validation_passed'', False)] = Inr (3 / 5)"
proof -
  have h1: "has_key [(''ClaimSignatureUrl'', PStr ''x''), (''ActiveManifestHash'', PStr ''y'')]
     ''ClaimSignatureUrl''" by (simp add: has_key_def)
  have h2: "has_key [(''ClaimSignatureUrl'', PStr ''x''), (''ActiveManifestHash'', PStr ''y'')]
     ''ActiveManifestHash''" by (simp add: has_key_def)
  have h3: "\<not> has_key [(''ClaimSignatureUrl'', PStr ''x''), (''ActiveManifestHash'', PStr ''y'')]
     ''ValidationResultsActiveManifestSuccessCode''" by (simp add: has_key_def)
  have d: "\<not> ai_disclosure [(''ClaimSignatureUrl'', PStr ''x''), (''ActiveManifestHash'', PStr ''y'')]"
    by code_simp
  from provenance_scenario [OF h1 h2 h3] d h1 h2 h3 show ?thesis by simp
qed

text \<open>
  Claim C2 as stated gives the provenance score of this scenario as 2/5. On the record with
  exactly the two fields the checker sets three keys, and the score is not 2/5.
\<close>

theorem provenance_scenario_counterexample:
  "check_c2pa_authenticity [(''ClaimSignatureUrl'', PStr ''x''), (''ActiveManifestHash'', PStr ''y'')] =
           Inr [(''has_c2pa_manifest'', True), (''valid_signature'', True),
                (''hash_validation'', True), (''ai_disclosure'', False),
                (''validation_passed'', False)] \<and>
   c2pa_score [(''has_c2pa_manifest'', True), (''valid_signature'', True),
                (''hash_validation'', True), (''ai_disclosure'', False),
                (''validation_passed'', False)] \<noteq> Inr (2 / 5)"
  by code_simp

subsection \<open>Zero-forcing\<close>

lemma c2pa_score_all_false:
  assumes "\<not> list_ex snd c"
  shows "c2pa_score c = Inr 0"
  using assms by (simp add: c2pa_score_def)

text \<open>
  Claim C5. When every value of the provenance group is false, the provenance score is 0
  and the final score is the weighted sum of the other three groups alone. The zero is set
  by the conditional and not obtained from the ratio: it is there for the empty group as
  well, where the ratio would divide by zero.
\<close>

theorem provenance_all_false_forced_zero:
  assumes "snd ` set c \<subseteq> {False}"
  shows "c2pa_score c = Inr 0 \<and>
         (\<forall>x z w. group_ratio i = Inr x \<longrightarrow> group_ratio a = Inr z \<longrightarrow> group_ratio t = Inr w \<longrightarrow>
            calculate_authenticity_score i c a t
              = Inr (min 100 ((x * (3 / 10) + z * (2 / 10) + (1 - w) * (1 / 10)) * 100))) \<and>
         (c = [] \<longrightarrow> group_ratio c = Inl ZeroDivisionError)"
proof -
  from assms have nf: "\<not> list_ex snd c" by (auto simp: list_ex_iff)
  have z: "c2pa_score c = Inr 0" by (rule c2pa_score_all_false [OF nf])
  have "calculate_authenticity_score i c a t
              = Inr (min 100 ((x * (3 / 10) + z * (2 / 10) + (1 - w) * (1 / 10)) * 100))"
    if "group_ratio i = Inr x" "group_ratio a = Inr z" "group_ratio t = Inr w" for x z w
    using that by (simp add: calculate_authenticity_score_def z overall_score_def)
  moreover have "group_ratio [] = Inl ZeroDivisionError" by (simp add: group_ratio_def)
  ultimately show ?thesis using z by blast
qed

theorem provenance_all_false_forced_zero_witness:
  "snd ` set [(''has_c2pa_manifest'', False), (''valid_signature'', False),
            (''hash_validation'', False), (''ai_disclosure'', False),
            (''validation_passed'', False)] \<subseteq> {False} \<and>
   group_ratio [(''valid_file_type'', True), (''reasonable_size'', True),
           (''has_metadata'', False), (''consistent_dates'', False)] = Inr (1 / 2) \<and>
   group_ratio [(''explicit_ai_credit'', False), (''generative_actions'', False),
           (''digital_source_type'', False), (''creation_tools'', False)] = Inr 0 \<and>
   group_ratio [(''inconsistent_software'', False), (''multiple_editors'', False),
           (''metadata_stripping'', True), (''date_anomalies'', False)] = Inr (1 / 4) \<and>
   c2pa_score [(''has_c2pa_manifest'', False), (''valid_signature'', False),
            (''hash_validation'', False), (''ai_disclosure'', False),
            (''validation_passed'', False)] = Inr 0 \<and>
   calculate_authenticity_score
          [(''valid_file_type'', True), (''reasonable_size'', True),
           (''has_metadata'', False), (''consistent_dates'', False)]
          [(''has_c2pa_manifest'', False), (''valid_signature'', False),
           (''hash_validation'', False), (''ai_disclosure'', False),
           (''validation_passed'', False)]
          [(''explicit_ai_credit'', False), (''generative_actions'', False),
           (''digital_source_type'', False), (''creation_tools'', False)]
          [(''inconsistent_software'', False), (''multiple_editors'', False),
           (''metadata_stripping'', True), (''date_anomalies'', False)] = Inr (45 / 2)"
proof -
  let ?i = "[(''valid_file_type'', True), (''reasonable_size'', True),
           (''has_metadata'', False), (''consistent_dates'', False)]"
  let ?c = "[(''has_c2pa_manifest'', False), (''valid_signature'', False),
            (''hash_validation'', False), (''ai_disclosure'', False),
            (''validation_passed'', False)]"
  let ?a = "[(''explicit_ai_credit'', False), (''generative_actions'', False),
           (''digital_source_type'', False), (''creation_tools'', False)]"
  let ?t = "[(''inconsistent_software'', False), (''multiple_editors'', False),
           (''metadata_stripping'', True), (''date_anomalies'', False)]"
  have h: "snd ` set ?c \<subseteq> {False}" by simp
  have gi: "group_ratio ?i = Inr (1 / 2)" by (simp add: group_ratio_def sum_values_def)
  have ga: "group_ratio ?a = Inr 0" by (simp add: group_ratio_def sum_values_def)
  have gt: "group_ratio ?t = Inr (1 / 4)" by (simp add: group_ratio_def sum_values_def)
  from provenance_all_false_forced_zero [OF h, of ?i ?a ?t] gi ga gt
  have "c2pa_score ?c = Inr 0" and
    "calculate_authenticity_score ?i ?c ?a ?t
       = Inr (min 100 (((1 / 2) * (3 / 10) + 0 * (2 / 10) + (1 - 1 / 4) * (1 / 10)) * 100))"
    by blast+
  with h gi ga gt show ?thesis by simp
qed


subsection \<open>Recommendations\<close>

text \<open>
  Claim C6, as amended. \<open>get_recommendations\<close> applies its four rules in this order and
  returns the texts of those that match, possibly none: score below 60; no provenance
  manifest; multiple editors; explicit AI credit with a score below 70. The four texts are
  those of the source, which end without a full stop.
\<close>

theorem recommendations_in_order:
  assumes "map_of (c2pa chk) ''has_c2pa_manifest'' = Some manifest"
    and "map_of (tampering chk) ''multiple_editors'' = Some editors"
    and "map_of (ai chk) ''explicit_ai_credit'' = Some credit"
  shows "get_recommendations chk score =
           Inr ((if score < 60 then [''Exercise caution when using this image''] else []) @
                (if \<not> manifest then [''No digital provenance data found''] else []) @
                (if editors then [''Multiple editing tools detected - verify source''] else []) @
                (if credit \<and> score < 70 then [''AI-generated content - verify intended use'']
                 else []))"
  using assms by (simp add: get_recommendations_def lookup_def)

theorem recommendations_in_order_witness:
  "map_of (c2pa \<lparr>integrity = [], c2pa = [(''has_c2pa_manifest'', False)],
                ai = [(''explicit_ai_credit'', True)],
                tampering = [(''multiple_editors'', True)]\<rparr>) ''has_c2pa_manifest'' = Some False \<and>
   map_of (tampering \<lparr>integrity = [], c2pa = [(''has_c2pa_manifest'', False)],
                ai = [(''explicit_ai_credit'', True)],
                tampering = [(''multiple_editors'', True)]\<rparr>) ''multiple_editors'' = Some True \<and>
   map_of (ai \<lparr>integrity = [], c2pa = [(''has_c2pa_manifest'', False)],
                ai = [(''explicit_ai_credit'', True)],
                tampering = [(''multiple_editors'', True)]\<rparr>) ''explicit_ai_credit'' = Some True \<and>
   get_recommendations \<lparr>integrity = [], c2pa = [(''has_c2pa_manifest'', False)],
                ai = [(''explicit_ai_credit'', True)],
                tampering = [(''multiple_editors'', True)]\<rparr> 50 =
     Inr [''Exercise caution when using this image'',
          ''No digital provenance data found'',
          ''Multiple editing tools detected - verify source'',
          ''AI-generated content - verify intended use'']"
proof -
  let ?chk = "\<lparr>integrity = [], c2pa = [(''has_c2pa_manifest'', False)],
                ai = [(''explicit_ai_credit'', True)],
                tampering = [(''multiple_editors'', True)]\<rparr>"
  have h1: "map_of (c2pa ?chk) ''has_c2pa_manifest'' = Some False" by simp
  have h2: "map_of (tampering ?chk) ''multiple_editors'' = Some True" by simp
  have h3: "map_of (ai ?chk) ''explicit_ai_credit'' = Some True" by simp
  from recommendations_in_order [OF h1 h2 h3, of 50] h1 h2 h3 show ?thesis by simp
qed

text \<open>
  Claim C6 as stated quotes every text with a closing full stop. With all four rules
  matching, the list returned is not the list of those texts.
\<close>

theorem recommendations_text_counterexample:
  "get_recommendations \<lparr>integrity = [], c2pa = [(''has_c2pa_manifest'', False)],
                ai = [(''explicit_ai_credit'', True)],
                tampering = [(''multiple_editors'', True)]\<rparr> 50 \<noteq>
     Inr [''Exercise caution when using this image.'',
          ''No digital provenance data found.'',
          ''Multiple editing tools detected - verify source.'',
          ''AI-generated content - verify intended use.'']"
  by (simp add: get_recommendations_def lookup_def)

subsection \<open>The reserved tampering key\<close>

text \<open>
  Claim C8. Every result that \<open>check_tampering_indicators\<close> returns has the key
  \<open>inconsistent_software\<close>, and its value is false.
\<close>

theorem inconsistent_software_false:
  assumes "check_tampering_indicators m = Inr t"
  shows "map_of t ''inconsistent_software'' = Some False"
  using assms by (auto simp: check_tampering_indicators_def split: sum.splits)

theorem inconsistent_software_false_witness:
  "check_tampering_indicators
      [(''Software'', PStr ''Photoshop''), (''ProcessingSoftware'', PStr ''Lightroom''),
       (''CreatorTool'', PStr ''GIMP''), (''FileType'', PStr ''JPEG'')]
     = Inr [(''inconsistent_software'', False), (''multiple_editors'', True),
            (''metadata_stripping'', True), (''date_anomalies'', False)] \<and>
   map_of [(''inconsistent_software'', False), (''multiple_editors'', True),
            (''metadata_stripping'', True), (''date_anomalies'', False)]
     ''inconsistent_software'' = Some False"
proof -
  have h: "check_tampering_indicators
      [(''Software'', PStr ''Photoshop''), (''ProcessingSoftware'', PStr ''Lightroom''),
       (''CreatorTool'', PStr ''GIMP''), (''FileType'', PStr ''JPEG'')]
     = Inr [(''inconsistent_software'', False), (''multiple_editors'', True),
            (''metadata_stripping'', True), (''date_anomalies'', False)]"
    by code_simp
  from inconsistent_software_false [OF h] h show ?thesis by simp
qed

subsection \<open>Empty metadata\<close>

text \<open>
  Claim C10. When the extraction yields the empty record, \<open>analyze_image\<close> returns the error
  result \<open>Could not extract metadata\<close>, the same as for a failed extraction; it returns a
  report only when the extraction yields a record with at least one field.
\<close>

theorem empty_metadata_is_error:
  "(extract path = Some [] \<longrightarrow>
      analyze_image extract clock path = Inr (ErrorResult ''Could not extract metadata'')) \<and>
   (extract path = None \<longrightarrow>
      analyze_image extract clock path = Inr (ErrorResult ''Could not extract metadata'')) \<and>
   (analyze_image extract clock path = Inr (Report r) \<longrightarrow>
      (\<exists>m. extract path = Some m \<and> m \<noteq> []))"
  by (auto simp: analyze_image_def split: option.splits if_splits sum.splits)

theorem empty_metadata_is_error_witness:
  "analyze_image (\<lambda>p. Some []) (\<lambda>p. ''2025-01-01T00:00:00'') ''image.jpg''
     = Inr (ErrorResult ''Could not extract metadata'') \<and>
   analyze_image (\<lambda>p. None) (\<lambda>p. ''2025-01-01T00:00:00'') ''image.jpg''
     = Inr (ErrorResult ''Could not extract metadata'') \<and>
   (\<exists>r. analyze_image (\<lambda>p. Some [(''FileType'', PStr ''PNG'')]) (\<lambda>p. ''2025-01-01T00:00:00'')
           ''image.jpg'' = Inr (Report r)) \<and>
   (\<exists>m. (\<lambda>p. Some [(''FileType'', PStr ''PNG'')]) ''image.jpg'' = Some m \<and> m \<noteq> [])"
proof -
  have a: "analyze_image (\<lambda>p. Some []) (\<lambda>p. ''2025-01-01T00:00:00'') ''image.jpg''
     = Inr (ErrorResult ''Could not extract metadata'')"
    using empty_metadata_is_error [of "\<lambda>p. Some []" "''image.jpg''"] by simp
  have b: "analyze_image (\<lambda>p. None) (\<lambda>p. ''2025-01-01T00:00:00'') ''image.jpg''
     = Inr (ErrorResult ''Could not extract metadata'')"
    using empty_metadata_is_error [of "\<lambda>p. None" "''image.jpg''"] by simp
  have "\<not> isl (analyze_metadata ''2025-01-01T00:00:00'' ''image.jpg'' [(''FileType'', PStr ''PNG'')])"
    by code_simp
  then have "\<exists>r. analyze_metadata ''2025-01-01T00:00:00'' ''image.jpg'' [(''FileType'', PStr ''PNG'')] = Inr r"
    by (cases "analyze_metadata ''2025-01-01T00:00:00'' ''image.jpg'' [(''FileType'', PStr ''PNG'')]") auto
  then have c: "\<exists>r. analyze_image (\<lambda>p. Some [(''FileType'', PStr ''PNG'')])
           (\<lambda>p. ''2025-01-01T00:00:00'') ''image.jpg'' = Inr (Report r)"
    by (auto simp: analyze_image_def)
  then obtain r where r: "analyze_image (\<lambda>p. Some [(''FileType'', PStr ''PNG'')])
           (\<lambda>p. ''2025-01-01T00:00:00'') ''image.jpg'' = Inr (Report r)" ..
  from empty_metadata_is_error [of "\<lambda>p. Some [(''FileType'', PStr ''PNG'')]" "''image.jpg''"
      "\<lambda>p. ''2025-01-01T00:00:00''" r] r
  have d: "\<exists>m. (\<lambda>p. Some [(''FileType'', PStr ''PNG'')]) ''image.jpg'' = Some m \<and> m \<noteq> []"
    by blast
  from a b c d show ?thesis by blast
qed

subsection \<open>A size that ExifTool prints and the checker cannot read\<close>

text \<open>Fields that are absent never make a checker raise: without the fields whose values
  are parsed or hashed, all four checkers return.\<close>

lemma checkers_return_on_absent_fields:
  assumes "\<not> has_key m ''FileSize''" and "\<not> has_key m ''ActionsDescription''"
    and "\<not> has_key m ''ValidationResultsActiveManifestSuccessCode''"
    and "\<not> has_key m ''Software''" and "\<not> has_key m ''ProcessingSoftware''"
    and "\<not> has_key m ''CreatorTool''"
  shows "check_basic_integrity m =
           Inr [(''valid_file_type'', valid_file_type m), (''reasonable_size'', False),
                (''has_metadata'', length m > 5), (''consistent_dates'', consistent_dates m)]"
    and "\<not> isl (check_c2pa_authenticity m)"
    and "\<not> isl (check_ai_indicators m)"
    and "\<not> isl (check_tampering_indicators m)"
  using assms
  by (simp_all add: has_key_def check_basic_integrity_def reasonable_size_def
      check_c2pa_authenticity_def validation_passed_def check_ai_indicators_def
      generative_actions_def check_tampering_indicators_def multiple_editors_def
      present_values_def)

text \<open>
  Claim C4 says that no checker ever raises, whatever the record holds. ExifTool prints a
  size of a few kilobytes with one decimal, such as \<open>4.5 kB\<close>; on a record with that size
  \<open>check_basic_integrity\<close> ends in the ValueError of \<open>int('4.5')\<close> and returns no result.
\<close>

theorem integrity_raises_on_fractional_size:
  "check_basic_integrity [(''FileType'', PStr ''PNG''), (''FileSize'', PStr ''4.5 kB'')]
     = Inl ValueError"
  by code_simp

subsection \<open>Date anomalies\<close>




text \<open>A year that \<open>int\<close> cannot read: a leading unit separator is not white space, so the
  ValueError is raised and swallowed, and the check stays false.\<close>

lemma date_anomalies_unreadable_year:
  "py_int (CHR 0x1F # ''202'') = None \<and>
   \<not> date_anomalies [(''DateTimeOriginal'', PStr ''2024''),
                      (''ModifyDate'', PStr (CHR 0x1F # ''202''))]"
  by code_simp



subsection \<open>Batch analysis\<close>

lemma analyze_directory_map:
  "analyze_directory extract clock str_exc listing directory_path =
     map (\<lambda>filename.
            case analyze_image extract clock (path_join directory_path filename) of
              Inr r \<Rightarrow> r
            | Inl e \<Rightarrow> ErrorResult (''Failed to analyze '' @ filename @ '': '' @ str_exc e))
         (filter is_image listing)"
  by (induction listing) simp_all

lemma valid_results_reports: "map Report (valid_results results) = filter is_report results"
  by (induction results rule: valid_results.induct) simp_all

lemma valid_results_filter: "valid_results (filter is_report results) = valid_results results"
  by (induction results rule: valid_results.induct) simp_all

lemma summarise_spec:
  assumes "list_all (\<lambda>r. has_key (c2pa (detailed_checks r)) ''has_c2pa_manifest'') rs"
  shows "summarise rs s scores =
     Inr (s\<lparr>high := high s + count_where (\<lambda>r. 80 \<le> authenticity_score r) rs,
            medium := medium s
              + count_where (\<lambda>r. 60 \<le> authenticity_score r \<and> authenticity_score r < 80) rs,
            low := low s
              + count_where (\<lambda>r. 40 \<le> authenticity_score r \<and> authenticity_score r < 60) rs,
            suspicious := suspicious s + count_where (\<lambda>r. authenticity_score r < 40) rs,
            c2pa_images := c2pa_images s
              + count_where (\<lambda>r. map_of (c2pa (detailed_checks r)) ''has_c2pa_manifest'' = Some True) rs,
            ai_generated_images := ai_generated_images s
              + count_where (\<lambda>r. list_ex snd (ai (detailed_checks r))) rs\<rparr>,
          scores @ map authenticity_score rs)"
  using assms
proof (induction rs arbitrary: s scores)
  case Nil
  show ?case by (simp add: count_where_def)
next
  case (Cons r rs)
  from Cons.prems obtain b where b: "map_of (c2pa (detailed_checks r)) ''has_c2pa_manifest'' = Some b"
    and rest: "list_all (\<lambda>r. has_key (c2pa (detailed_checks r)) ''has_c2pa_manifest'') rs"
    by (auto simp: has_key_def)
  show ?case
    by (simp add: Cons.IH [OF rest] b lookup_def categorize_def count_where_def Let_def)
qed


lemma generate_summary_report_spec:
  assumes "list_all (\<lambda>r. has_key (c2pa (detailed_checks r)) ''has_c2pa_manifest'')
             (valid_results results)"
  shows "generate_summary_report results =
           Inr (if valid_results results = [] then None
                else Some (summary_spec (valid_results results)))"
proof (cases "valid_results results = []")
  case True
  then show ?thesis by (simp add: generate_summary_report_def)
next
  case False
  then show ?thesis
    by (simp add: generate_summary_report_def Let_def summarise_spec [OF assms] summary_spec_def)
qed

lemma analyze_metadata_manifest_key:
  assumes "analyze_metadata now path m = Inr r"
  shows "has_key (c2pa (detailed_checks r)) ''has_c2pa_manifest''"
proof -
  from assms obtain i c a t s where
    c: "check_c2pa_authenticity m = Inr c" and
    g: "generate_report now path m s \<lparr>integrity = i, c2pa = c, ai = a, tampering = t\<rparr> = Inr r"
    by (auto simp: analyze_metadata_def split: sum.splits)
  from g have "c2pa (detailed_checks r) = c"
    by (auto simp: generate_report_def split: sum.splits)
  moreover from c have "has_key c ''has_c2pa_manifest''"
    by (auto simp: check_c2pa_authenticity_def has_key_def split: sum.splits)
  ultimately show ?thesis by simp
qed

lemma analyze_image_manifest_key:
  assumes "analyze_image extract clock path = Inr (Report r)"
  shows "has_key (c2pa (detailed_checks r)) ''has_c2pa_manifest''"
  using assms analyze_metadata_manifest_key
  by (auto simp: analyze_image_def split: option.splits if_splits sum.splits)

lemma analyze_directory_manifest_key:
  "list_all (\<lambda>r. has_key (c2pa (detailed_checks r)) ''has_c2pa_manifest'')
     (valid_results (analyze_directory extract clock str_exc listing directory_path))"
proof (induction listing)
  case Nil
  show ?case by simp
next
  case (Cons filename rest)
  show ?case
  proof (cases "is_image filename")
    case False
    with Cons.IH show ?thesis by simp
  next
    case True
    show ?thesis
    proof (cases "analyze_image extract clock (path_join directory_path filename)")
      case (Inl e)
      with True Cons.IH show ?thesis by simp
    next
      case (Inr res)
      show ?thesis
      proof (cases res)
        case (Report r)
        with Inr have "has_key (c2pa (detailed_checks r)) ''has_c2pa_manifest''"
          using analyze_image_manifest_key by blast
        with True Inr Report Cons.IH show ?thesis by simp
      next
        case (ErrorResult msg)
        with True Inr Cons.IH show ?thesis by simp
      qed
    qed
  qed
qed

text \<open>
  Claim C9. \<open>analyze_directory\<close> gives one entry for every image file of the listing, in
  order: the result of \<open>analyze_image\<close>, or, when the analysis raises, an error entry naming
  the file, after which the remaining files are analysed all the same. The valid results of
  the summary are exactly the report entries, so that dropping every error entry leaves the
  summary as it is, and the summary of a batch is the number of its reports, their mean
  score, their count in each verdict band, the number with a provenance manifest and the
  number with an AI indicator.
\<close>

theorem batch_isolates_failures:
  "analyze_directory extract clock str_exc listing directory_path =
     map (\<lambda>filename.
            case analyze_image extract clock (path_join directory_path filename) of
              Inr r \<Rightarrow> r
            | Inl e \<Rightarrow> ErrorResult (''Failed to analyze '' @ filename @ '': '' @ str_exc e))
         (filter is_image listing) \<and>
   map Report (valid_results results) = filter is_report results \<and>
   generate_summary_report results = generate_summary_report (filter is_report results) \<and>
   generate_summary_report (analyze_directory extract clock str_exc listing directory_path) =
     Inr (if valid_results (analyze_directory extract clock str_exc listing directory_path) = []
          then None
          else Some (summary_spec
                 (valid_results (analyze_directory extract clock str_exc listing directory_path))))"
proof -
  have "generate_summary_report results = generate_summary_report (filter is_report results)"
    by (simp add: generate_summary_report_def valid_results_filter)
  with analyze_directory_map valid_results_reports
    generate_summary_report_spec [OF analyze_directory_manifest_key]
  show ?thesis by blast
qed


theorem batch_isolates_failures_witness:
  "map is_report
     (analyze_directory
        (\<lambda>p. if p = ''d/a.jpg''
              then Some [(''ClaimSignatureUrl'', PStr ''x''), (''ActiveManifestHash'', PStr ''y'')]
              else if p = ''d/b.PNG'' then Some [(''FileSize'', PStr ''4.5 kB'')] else None)
        (\<lambda>p. ''2025-01-01T00:00:00'') (\<lambda>e. ''invalid literal'')
        [''a.jpg'', ''notes.txt'', ''b.PNG'', ''z.webp''] ''d'') = [True, False, False] \<and>
   generate_summary_report
     (analyze_directory
        (\<lambda>p. if p = ''d/a.jpg''
              then Some [(''ClaimSignatureUrl'', PStr ''x''), (''ActiveManifestHash'', PStr ''y'')]
              else if p = ''d/b.PNG'' then Some [(''FileSize'', PStr ''4.5 kB'')] else None)
        (\<lambda>p. ''2025-01-01T00:00:00'') (\<lambda>e. ''invalid literal'')
        [''a.jpg'', ''notes.txt'', ''b.PNG'', ''z.webp''] ''d'') =
     Inr (Some \<lparr>total_images = 1, average_score = 34, high = 0, medium = 0, low = 0,
                suspicious = 1, c2pa_images = 1, ai_generated_images = 0\<rparr>)"
proof -
  let ?rs = "analyze_directory
        (\<lambda>p. if p = ''d/a.jpg''
              then Some [(''ClaimSignatureUrl'', PStr ''x''), (''ActiveManifestHash'', PStr ''y'')]
              else if p = ''d/b.PNG'' then Some [(''FileSize'', PStr ''4.5 kB'')] else None)
        (\<lambda>p. ''2025-01-01T00:00:00'') (\<lambda>e. ''invalid literal'')
        [''a.jpg'', ''notes.txt'', ''b.PNG'', ''z.webp''] ''d''"
  have a: "map is_report ?rs = [True, False, False]" by code_simp
  have b: "valid_results ?rs \<noteq> []" by code_simp
  have c: "summary_spec (valid_results ?rs) =
      \<lparr>total_images = 1, average_score = 34, high = 0, medium = 0, low = 0,
       suspicious = 1, c2pa_images = 1, ai_generated_images = 0\<rparr>"
    by code_simp
  from batch_isolates_failures
    [of "\<lambda>p. if p = ''d/a.jpg''
              then Some [(''ClaimSignatureUrl'', PStr ''x''), (''ActiveManifestHash'', PStr ''y'')]
              else if p = ''d/b.PNG'' then Some [(''FileSize'', PStr ''4.5 kB'')] else None"
        "\<lambda>p. ''2025-01-01T00:00:00''" "\<lambda>e. ''invalid literal''"
        "[''a.jpg'', ''notes.txt'', ''b.PNG'', ''z.webp'']" "''d''"]
  have "generate_summary_report ?rs =
     Inr (if valid_results ?rs = [] then None else Some (summary_spec (valid_results ?rs)))"
    by blast
  with a b c show ?thesis by simp
qed

end
